theory Spec2Isabelle
  imports Complex_Main "HOL-Library.Word" "HOL-Library.Log_Nat"
begin

unbundle bit_operations_syntax

section \<open>Errors\<close>

text \<open>
  The Python exceptions that the modelled code can raise.  A function that can raise
  returns \<open>error + 'a\<close>, with \<open>Inl\<close> for the exception; a library call whose only
  exception is \<open>ValueError\<close> returns an \<open>option\<close>.
\<close>

datatype error =
    ValueError string
  | OverflowError string
  | KeyError string
  | OSError string

section \<open>Python strings\<close>

text \<open>
  A Python \<open>str\<close> is modelled as a \<open>string\<close>, each \<open>char\<close> standing for the code point
  of the same number (the Latin-1 range of Unicode).  The functions of this section are the
  methods of \<open>str\<close> that the scraper calls, restricted to that range.
\<close>

text \<open>\<open>str.isspace\<close> on one character: the white space of \<open>strip()\<close> and \<open>split()\<close>.\<close>

definition is_space :: "char \<Rightarrow> bool" where
  "is_space c \<longleftrightarrow>
     c \<in> {CHR 0x09, CHR 0x0A, CHR 0x0B, CHR 0x0C, CHR 0x0D, CHR 0x1C, CHR 0x1D, CHR 0x1E,
          CHR 0x1F, CHR 0x20, CHR 0x85, CHR 0xA0}"

definition py_strip :: "string \<Rightarrow> string" where
  "py_strip s = rev (dropWhile is_space (rev (dropWhile is_space s)))"

text \<open>
  \<open>str.lower\<close>: the letters A to Z and the upper-case letters of Latin-1 (0xC0 to 0xDE
  without the multiplication sign 0xD7) move up by 32, which sets one bit of the code.
\<close>

definition lower_char :: "char \<Rightarrow> char" where
  "lower_char c =
     (let n = (of_char c :: nat)
      in if (65 \<le> n \<and> n \<le> 90) \<or> (192 \<le> n \<and> n \<le> 222 \<and> n \<noteq> 215)
         then (case c of Char b0 b1 b2 b3 b4 b5 b6 b7 \<Rightarrow> Char b0 b1 b2 b3 b4 True b6 b7)
         else c)"

definition py_lower :: "string \<Rightarrow> string" where
  "py_lower s = map lower_char s"

text \<open>\<open>s.startswith(p)\<close> and the substring test \<open>p in s\<close>.\<close>

definition startswith :: "string \<Rightarrow> string \<Rightarrow> bool" where
  "startswith s p \<longleftrightarrow> take (length p) s = p"

fun contains :: "string \<Rightarrow> string \<Rightarrow> bool" where
  "contains p [] = (p = [])"
| "contains p (c # cs) = (startswith (c # cs) p \<or> contains p cs)"

text \<open>\<open>s.split()\<close>: the maximal runs of characters that are not white space.\<close>

fun split_from :: "string \<Rightarrow> string \<Rightarrow> string list" where
  "split_from cur [] = (if cur = [] then [] else [cur])"
| "split_from cur (c # cs) =
     (if is_space c then (if cur = [] then split_from [] cs else cur # split_from [] cs)
      else split_from (cur @ [c]) cs)"

definition py_split :: "string \<Rightarrow> string list" where
  "py_split s = split_from [] s"

text \<open>\<open>s.split(d)\<close> for a one-character separator, and \<open>sep.join(xs)\<close>.\<close>

fun split_on :: "char \<Rightarrow> string \<Rightarrow> string list" where
  "split_on d [] = [[]]"
| "split_on d (c # cs) =
     (if c = d then [] # split_on d cs
      else (case split_on d cs of [] \<Rightarrow> [[c]] | x # xs \<Rightarrow> (c # x) # xs))"

fun join_with :: "string \<Rightarrow> string list \<Rightarrow> string" where
  "join_with sep [] = []"
| "join_with sep [x] = x"
| "join_with sep (x # y # ys) = x @ sep @ join_with sep (y # ys)"

text \<open>The lower case of the ASCII letters only, as \<open>str.lower\<close> acts on ASCII text.\<close>

definition ascii_lower :: "string \<Rightarrow> string" where
  "ascii_lower s =
     map (\<lambda>c. if 65 \<le> (of_char c :: nat) \<and> (of_char c :: nat) \<le> 90
              then (case c of Char b0 b1 b2 b3 b4 b5 b6 b7 \<Rightarrow> Char b0 b1 b2 b3 b4 True b6 b7)
              else c) s"

section \<open>Python numbers\<close>

subsection \<open>Reading digits\<close>

definition is_digit :: "char \<Rightarrow> bool" where
  "is_digit c \<longleftrightarrow> c \<in> set ''0123456789''"

text \<open>
  The value of a character as a digit, 37 for a character that is no digit of any base
  (CPython's table \<open>_PyLong_DigitValue\<close>).
\<close>

definition digit_value :: "char \<Rightarrow> int" where
  "digit_value c =
     (let n = (of_char c :: int)
      in if 48 \<le> n \<and> n \<le> 57 then n - 48
         else if 97 \<le> n \<and> n \<le> 122 then n - 87
         else if 65 \<le> n \<and> n \<le> 90 then n - 55
         else 37)"

definition digits_value :: "int \<Rightarrow> string \<Rightarrow> int" where
  "digits_value base ds = foldl (\<lambda>a c. base * a + digit_value c) 0 ds"

text \<open>
  Before \<open>int\<close> and \<open>float\<close> read a \<open>str\<close>, white space outside ASCII becomes a
  blank; then the white space of C (\<open>Py_ISSPACE\<close>) is skipped at both ends.
\<close>

definition c_isspace :: "char \<Rightarrow> bool" where
  "c_isspace c \<longleftrightarrow> c \<in> {CHR 0x09, CHR 0x0A, CHR 0x0B, CHR 0x0C, CHR 0x0D, CHR 0x20}"

definition to_ascii_space :: "string \<Rightarrow> string" where
  "to_ascii_space s = map (\<lambda>c. if c = CHR 0x85 \<or> c = CHR 0xA0 then CHR 0x20 else c) s"

definition c_strip :: "string \<Rightarrow> string" where
  "c_strip s = rev (dropWhile c_isspace (rev (dropWhile c_isspace s)))"

definition split_sign :: "string \<Rightarrow> bool \<times> string" where
  "split_sign s =
     (case s of
        [] \<Rightarrow> (False, [])
      | c # cs \<Rightarrow> if c = CHR ''-'' then (True, cs) else if c = CHR ''+'' then (False, cs) else (False, s))"

subsection \<open>\<open>int(s)\<close> and \<open>int(s, 16)\<close>\<close>

text \<open>
  \<open>int\<close> on a \<open>str\<close>, for the bases 10 and 16 that the scraper uses; \<open>None\<close> stands for
  \<open>ValueError\<close>, the only exception of this call.  The literal is an optional sign, for
  base 16 an optional prefix \<open>0x\<close> (which one underscore may follow), and digits with single
  underscores between them.  In base 10 a literal of more than 4300 digits is refused
  (the default of \<open>sys.set_int_max_str_digits\<close>).
\<close>

definition py_int :: "int \<Rightarrow> string \<Rightarrow> int option" where
  "py_int base s =
     (let s1 = dropWhile c_isspace (to_ascii_space s);
          (neg, s2) = split_sign s1;
          s3 = (if base = 16 \<and> (take 2 s2 = ''0x'' \<or> take 2 s2 = ''0X'')
                then (if take 1 (drop 2 s2) = ''_'' then drop 3 s2 else drop 2 s2)
                else s2);
          body = takeWhile (\<lambda>c. digit_value c < base \<or> c = CHR ''_'') s3;
          rest = dropWhile (\<lambda>c. digit_value c < base \<or> c = CHR ''_'') s3;
          ds = filter (\<lambda>c. c \<noteq> CHR ''_'') body
      in if take 1 s3 = ''_'' then None
         else if contains ''__'' body \<or> (body \<noteq> [] \<and> last body = CHR ''_'') then None
         else if ds = [] then None
         else if base = 10 \<and> 4300 < length ds then None
         else if dropWhile c_isspace rest \<noteq> [] then None
         else Some (if neg then - digits_value base ds else digits_value base ds))"

text \<open>\<open>str(n)\<close> for an integer.\<close>

fun nat_digits :: "nat \<Rightarrow> string" where
  "nat_digits n =
     (if n < 10 then [''0123456789'' ! n] else nat_digits (n div 10) @ [''0123456789'' ! (n mod 10)])"

definition str_of_int :: "int \<Rightarrow> string" where
  "str_of_int i = (if i < 0 then ''-'' @ nat_digits (nat (- i)) else nat_digits (nat i))"

subsection \<open>\<open>float\<close>\<close>

text \<open>
  A Python \<open>float\<close> is an IEEE 754 double: a rational number that a 53-bit significand
  represents, an infinity, or a NaN (the sign of zero plays no part here).
\<close>

datatype pyfloat = Finite rat | PosInf | NegInf | NaN

definition pow2 :: "int \<Rightarrow> rat" where
  "pow2 e = (if 0 \<le> e then 2 ^ nat e else 1 / 2 ^ nat (- e))"

definition pow10 :: "int \<Rightarrow> rat" where
  "pow10 e = (if 0 \<le> e then 10 ^ nat e else 1 / 10 ^ nat (- e))"

text \<open>For \<open>x > 0\<close>, the exponent \<open>e\<close> with \<open>2 ^ e \<le> x < 2 ^ (e + 1)\<close>.\<close>

definition floor_log2 :: "rat \<Rightarrow> int" where
  "floor_log2 x =
     (let (p, q) = quotient_of x; k = bitlen p - bitlen q
      in if pow2 k \<le> x then k else k - 1)"

definition round_half_even :: "rat \<Rightarrow> int" where
  "round_half_even x =
     (let f = \<lfloor>x\<rfloor>; d = x - of_int f
      in if d < 1 / 2 then f
         else if 1 / 2 < d then f + 1
         else if even f then f else f + 1)"

text \<open>
  Rounding of a real value to the nearest double, ties to the even significand: the
  spacing of the doubles around \<open>x\<close> is \<open>2 ^ (e - 52)\<close>, with \<open>e\<close> at least \<open>-1022\<close>
  (below, the doubles are subnormal), and a result of \<open>2 ^ 1024\<close> or more is an infinity.
\<close>

definition round_double :: "rat \<Rightarrow> pyfloat" where
  "round_double x =
     (if x = 0 then Finite 0
      else
        let a = \<bar>x\<bar>;
            e = max (floor_log2 a) (- 1022);
            q = pow2 (e - 52);
            r = of_int (round_half_even (a / q)) * q
        in if pow2 1024 \<le> r then (if 0 < x then PosInf else NegInf)
           else Finite (if 0 < x then r else - r))"

text \<open>
  Underscores in a numeric literal stand between two digits only; \<open>None\<close> is a misplaced
  underscore.  \<open>prev\<close> is the character before.
\<close>

fun remove_underscores :: "char \<Rightarrow> string \<Rightarrow> string option" where
  "remove_underscores prev [] = (if prev = CHR ''_'' then None else Some [])"
| "remove_underscores prev (c # cs) =
     (if c = CHR ''_''
      then (if is_digit prev then remove_underscores c cs else None)
      else if prev = CHR ''_'' \<and> \<not> is_digit c then None
      else map_option ((#) c) (remove_underscores c cs))"

text \<open>
  An unsigned decimal literal: digits, an optional point with digits, an optional exponent;
  at least one digit before the exponent.  The result is its exact value.
\<close>

definition parse_decimal :: "string \<Rightarrow> rat option" where
  "parse_decimal s =
     (let ip = takeWhile is_digit s;
          r1 = dropWhile is_digit s;
          fp = (if take 1 r1 = ''.'' then takeWhile is_digit (drop 1 r1) else []);
          r2 = (if take 1 r1 = ''.'' then dropWhile is_digit (drop 1 r1) else r1)
      in if ip = [] \<and> fp = [] then None
         else if r2 = [] then Some (of_int (digits_value 10 (ip @ fp)) * pow10 (- int (length fp)))
         else if take 1 r2 = ''e'' \<or> take 1 r2 = ''E'' then
           (let (neg, r3) = split_sign (drop 1 r2)
            in if r3 = [] \<or> \<not> list_all is_digit r3 then None
               else Some (of_int (digits_value 10 (ip @ fp))
                          * pow10 ((if neg then - digits_value 10 r3 else digits_value 10 r3)
                                   - int (length fp))))
         else None)"

definition float_inner :: "string \<Rightarrow> pyfloat option" where
  "float_inner s =
     (let (neg, body) = split_sign s; w = ascii_lower body
      in if w = ''inf'' \<or> w = ''infinity'' then Some (if neg then NegInf else PosInf)
         else if w = ''nan'' then Some NaN
         else (case parse_decimal body of
                 None \<Rightarrow> None
               | Some v \<Rightarrow> Some (round_double (if neg then - v else v))))"

text \<open>
  \<open>float(s)\<close> on a \<open>str\<close>; \<open>None\<close> stands for \<open>ValueError\<close>, the only exception of this
  call.  A literal too large for a double is an infinity, not an error.
\<close>

definition py_float :: "string \<Rightarrow> pyfloat option" where
  "py_float s =
     (let t = c_strip (to_ascii_space s)
      in if CHR ''_'' \<in> set t
         then (case remove_underscores (CHR 0x00) t of
                 None \<Rightarrow> None
               | Some u \<Rightarrow> float_inner u)
         else float_inner t)"

text \<open>The product of a float and an integer that a double represents exactly.\<close>

definition float_mul :: "pyfloat \<Rightarrow> int \<Rightarrow> pyfloat" where
  "float_mul x m =
     (case x of
        Finite v \<Rightarrow> round_double (v * of_int m)
      | PosInf \<Rightarrow> (if 0 < m then PosInf else if m < 0 then NegInf else NaN)
      | NegInf \<Rightarrow> (if 0 < m then NegInf else if m < 0 then PosInf else NaN)
      | NaN \<Rightarrow> NaN)"

text \<open>\<open>int(x)\<close> on a float: truncation towards zero; an infinity and a NaN raise.\<close>

definition int_of_float :: "pyfloat \<Rightarrow> error + int" where
  "int_of_float x =
     (case x of
        Finite v \<Rightarrow> Inr (if 0 \<le> v then \<lfloor>v\<rfloor> else \<lceil>v\<rceil>)
      | PosInf \<Rightarrow> Inl (OverflowError ''cannot convert float infinity to integer'')
      | NegInf \<Rightarrow> Inl (OverflowError ''cannot convert float infinity to integer'')
      | NaN \<Rightarrow> Inl (ValueError ''cannot convert float NaN to integer''))"

section \<open>SHA-256 (hashlib)\<close>

text \<open>
  \<open>hashlib.sha256(b).hexdigest()\<close>, after FIPS 180-4: the message is padded to a multiple of
  64 bytes, read as big-endian 32-bit words, and compressed block by block; the digest is
  the eight words of the final state in lower-case hexadecimal.  \<open>utf8_encode\<close> is
  \<open>s.encode("utf-8")\<close> on the code points below 256.
\<close>

type_synonym byte = "8 word"

type_synonym sha_state =
  "32 word \<times> 32 word \<times> 32 word \<times> 32 word \<times> 32 word \<times> 32 word \<times> 32 word \<times> 32 word"

definition K256 :: "32 word list" where
  "K256 =
    [0x428A2F98, 0x71374491, 0xB5C0FBCF, 0xE9B5DBA5, 0x3956C25B, 0x59F111F1,
     0x923F82A4, 0xAB1C5ED5, 0xD807AA98, 0x12835B01, 0x243185BE, 0x550C7DC3,
     0x72BE5D74, 0x80DEB1FE, 0x9BDC06A7, 0xC19BF174, 0xE49B69C1, 0xEFBE4786,
     0x0FC19DC6, 0x240CA1CC, 0x2DE92C6F, 0x4A7484AA, 0x5CB0A9DC, 0x76F988DA,
     0x983E5152, 0xA831C66D, 0xB00327C8, 0xBF597FC7, 0xC6E00BF3, 0xD5A79147,
     0x06CA6351, 0x14292967, 0x27B70A85, 0x2E1B2138, 0x4D2C6DFC, 0x53380D13,
     0x650A7354, 0x766A0ABB, 0x81C2C92E, 0x92722C85, 0xA2BFE8A1, 0xA81A664B,
     0xC24B8B70, 0xC76C51A3, 0xD192E819, 0xD6990624, 0xF40E3585, 0x106AA070,
     0x19A4C116, 0x1E376C08, 0x2748774C, 0x34B0BCB5, 0x391C0CB3, 0x4ED8AA4A,
     0x5B9CCA4F, 0x682E6FF3, 0x748F82EE, 0x78A5636F, 0x84C87814, 0x8CC70208,
     0x90BEFFFA, 0xA4506CEB, 0xBEF9A3F7, 0xC67178F2]"

definition H256_init :: sha_state where
  "H256_init = (0x6A09E667, 0xBB67AE85, 0x3C6EF372, 0xA54FF53A, 0x510E527F, 0x9B05688C, 0x1F83D9AB, 0x5BE0CD19)"

definition rotr :: "nat \<Rightarrow> 32 word \<Rightarrow> 32 word" where
  "rotr n x = drop_bit n x OR push_bit (32 - n) x"

definition Ch :: "32 word \<Rightarrow> 32 word \<Rightarrow> 32 word \<Rightarrow> 32 word" where
  "Ch x y z = (x AND y) XOR (NOT x AND z)"

definition Maj :: "32 word \<Rightarrow> 32 word \<Rightarrow> 32 word \<Rightarrow> 32 word" where
  "Maj x y z = (x AND y) XOR (x AND z) XOR (y AND z)"

definition bsig0 :: "32 word \<Rightarrow> 32 word" where
  "bsig0 x = rotr 2 x XOR rotr 13 x XOR rotr 22 x"

definition bsig1 :: "32 word \<Rightarrow> 32 word" where
  "bsig1 x = rotr 6 x XOR rotr 11 x XOR rotr 25 x"

definition ssig0 :: "32 word \<Rightarrow> 32 word" where
  "ssig0 x = rotr 7 x XOR rotr 18 x XOR drop_bit 3 x"

definition ssig1 :: "32 word \<Rightarrow> 32 word" where
  "ssig1 x = rotr 17 x XOR rotr 19 x XOR drop_bit 10 x"

definition be64 :: "nat \<Rightarrow> byte list" where
  "be64 n = map (\<lambda>i. of_nat (n div 2 ^ (8 * i))) [7, 6, 5, 4, 3, 2, 1, 0]"

definition sha_pad :: "byte list \<Rightarrow> byte list" where
  "sha_pad m =
     m @ [0x80] @ replicate ((119 - length m mod 64) mod 64) 0 @ be64 (8 * length m)"

fun be_words :: "byte list \<Rightarrow> 32 word list" where
  "be_words (a # b # c # d # rest) =
     (push_bit 24 (ucast a) OR push_bit 16 (ucast b) OR push_bit 8 (ucast c) OR ucast d)
       # be_words rest"
| "be_words _ = []"

fun extend_schedule :: "nat \<Rightarrow> 32 word list \<Rightarrow> 32 word list" where
  "extend_schedule 0 w = w"
| "extend_schedule (Suc n) w =
     (let t = length w
      in extend_schedule n
           (w @ [ssig1 (w ! (t - 2)) + w ! (t - 7) + ssig0 (w ! (t - 15)) + w ! (t - 16)]))"

definition sha_round :: "sha_state \<Rightarrow> 32 word \<times> 32 word \<Rightarrow> sha_state" where
  "sha_round s kw =
     (case s of (a, b, c, d, e, f, g, h) \<Rightarrow>
        let t1 = h + bsig1 e + Ch e f g + fst kw + snd kw;
            t2 = bsig0 a + Maj a b c
        in (t1 + t2, a, b, c, d + t1, e, f, g))"

definition sha_compress :: "sha_state \<Rightarrow> 32 word list \<Rightarrow> sha_state" where
  "sha_compress hs block =
     (case hs of (a, b, c, d, e, f, g, h) \<Rightarrow>
        case foldl sha_round hs (zip K256 (extend_schedule 48 block)) of
          (a', b', c', d', e', f', g', h') \<Rightarrow>
            (a + a', b + b', c + c', d + d', e + e', f + f', g + g', h + h'))"

fun sha_blocks :: "nat \<Rightarrow> sha_state \<Rightarrow> 32 word list \<Rightarrow> sha_state" where
  "sha_blocks 0 hs ws = hs"
| "sha_blocks (Suc n) hs ws = sha_blocks n (sha_compress hs (take 16 ws)) (drop 16 ws)"

definition sha256 :: "byte list \<Rightarrow> sha_state" where
  "sha256 m = (let ws = be_words (sha_pad m) in sha_blocks (length ws div 16) H256_init ws)"

definition hex_char :: "nat \<Rightarrow> char" where
  "hex_char n = ''0123456789abcdef'' ! (n mod 16)"

definition hex32 :: "32 word \<Rightarrow> string" where
  "hex32 w = map (\<lambda>i. hex_char (unat (drop_bit (4 * i) w AND 0xF))) [7, 6, 5, 4, 3, 2, 1, 0]"

definition hexdigest :: "sha_state \<Rightarrow> string" where
  "hexdigest hs =
     (case hs of (a, b, c, d, e, f, g, h) \<Rightarrow>
        hex32 a @ hex32 b @ hex32 c @ hex32 d @ hex32 e @ hex32 f @ hex32 g @ hex32 h)"

definition utf8_encode :: "string \<Rightarrow> byte list" where
  "utf8_encode s =
     concat (map (\<lambda>c. let n = (of_char c :: nat)
                       in if n < 128 then [of_nat n]
                          else [of_nat (192 + n div 64), of_nat (128 + n mod 64)]) s)"

definition sha256_hexdigest :: "string \<Rightarrow> string" where
  "sha256_hexdigest s = hexdigest (sha256 (utf8_encode s))"

section \<open>URLs (urllib.parse)\<close>

text \<open>
  \<open>urlsplit\<close>, \<open>urlparse\<close>, \<open>urlunparse\<close> and \<open>urljoin\<close> of CPython 3.11 on \<open>str\<close>
  arguments.  \<open>urlsplit\<close> raises \<open>ValueError\<close> on a network location with an unmatched
  bracket, or with a bracketed host that the module \<open>ipaddress\<close> refuses; the latter test
  is the parameter \<open>host_ok\<close>.
\<close>

definition uses_relative :: "string list" where
  "uses_relative = ['''', ''ftp'', ''http'', ''gopher'', ''nntp'', ''imap'', ''wais'', ''file'',
     ''https'', ''shttp'', ''mms'', ''prospero'', ''rtsp'', ''rtsps'', ''rtspu'', ''sftp'',
     ''svn'', ''svn+ssh'', ''ws'', ''wss'']"

definition uses_netloc :: "string list" where
  "uses_netloc = ['''', ''ftp'', ''http'', ''gopher'', ''nntp'', ''telnet'', ''imap'', ''wais'',
     ''file'', ''mms'', ''https'', ''shttp'', ''snews'', ''prospero'', ''rtsp'', ''rtsps'',
     ''rtspu'', ''rsync'', ''svn'', ''svn+ssh'', ''sftp'', ''nfs'', ''git'', ''git+ssh'',
     ''ws'', ''wss'']"

definition uses_params :: "string list" where
  "uses_params = ['''', ''ftp'', ''hdl'', ''prospero'', ''http'', ''imap'', ''https'', ''shttp'',
     ''rtsp'', ''rtsps'', ''rtspu'', ''sip'', ''sips'', ''mms'', ''sftp'', ''tel'']"

definition is_ascii_alpha :: "char \<Rightarrow> bool" where
  "is_ascii_alpha c \<longleftrightarrow>
     (let n = (of_char c :: nat) in (65 \<le> n \<and> n \<le> 90) \<or> (97 \<le> n \<and> n \<le> 122))"

definition is_scheme_char :: "char \<Rightarrow> bool" where
  "is_scheme_char c \<longleftrightarrow> is_ascii_alpha c \<or> is_digit c \<or> c \<in> {CHR ''+'', CHR ''-'', CHR ''.''}"

definition is_c0_or_space :: "char \<Rightarrow> bool" where
  "is_c0_or_space c \<longleftrightarrow> (of_char c :: nat) \<le> 32"

definition remove_unsafe :: "string \<Rightarrow> string" where
  "remove_unsafe s = filter (\<lambda>c. c \<notin> {CHR 0x09, CHR 0x0D, CHR 0x0A}) s"

record url_parts =
  url_scheme :: string
  url_netloc :: string
  url_path :: string
  url_params :: string
  url_query :: string
  url_fragment :: string

text \<open>\<open>_splitnetloc(url, 2)\<close> for a \<open>url\<close> that starts with two slashes.\<close>

definition splitnetloc :: "string \<Rightarrow> string \<times> string" where
  "splitnetloc url =
     (let is_delim = (\<lambda>c. c \<in> {CHR ''/'', CHR ''?'', CHR ''#''})
      in (takeWhile (\<lambda>c. \<not> is_delim c) (drop 2 url), dropWhile (\<lambda>c. \<not> is_delim c) (drop 2 url)))"

definition bracketed_host :: "string \<Rightarrow> string" where
  "bracketed_host nl =
     takeWhile (\<lambda>c. c \<noteq> CHR '']'') (drop 1 (dropWhile (\<lambda>c. c \<noteq> CHR ''['') nl))"

definition urlsplit :: "(string \<Rightarrow> bool) \<Rightarrow> string \<Rightarrow> string \<Rightarrow> error + url_parts" where
  "urlsplit host_ok url0 scheme0 =
     (let url1 = remove_unsafe (dropWhile is_c0_or_space url0);
          sch0 = remove_unsafe (rev (dropWhile is_c0_or_space (rev (dropWhile is_c0_or_space scheme0))));
          pre = takeWhile (\<lambda>c. c \<noteq> CHR '':'') url1;
          has_scheme = (CHR '':'' \<in> set url1 \<and> pre \<noteq> [] \<and> is_ascii_alpha (hd url1)
                        \<and> list_all is_scheme_char pre);
          sch = (if has_scheme then ascii_lower pre else sch0);
          url2 = (if has_scheme then drop (length pre + 1) url1 else url1);
          nl = (if take 2 url2 = ''//'' then fst (splitnetloc url2) else []);
          url3 = (if take 2 url2 = ''//'' then snd (splitnetloc url2) else url2)
      in if (CHR ''['' \<in> set nl \<and> CHR '']'' \<notin> set nl) \<or> (CHR '']'' \<in> set nl \<and> CHR ''['' \<notin> set nl)
         then Inl (ValueError ''Invalid IPv6 URL'')
         else if CHR ''['' \<in> set nl \<and> CHR '']'' \<in> set nl \<and> \<not> host_ok (bracketed_host nl)
         then Inl (ValueError ''invalid bracketed host'')
         else
           let frag = (if CHR ''#'' \<in> set url3 then drop 1 (dropWhile (\<lambda>c. c \<noteq> CHR ''#'') url3) else []);
               url4 = takeWhile (\<lambda>c. c \<noteq> CHR ''#'') url3;
               qry = (if CHR ''?'' \<in> set url4 then drop 1 (dropWhile (\<lambda>c. c \<noteq> CHR ''?'') url4) else []);
               url5 = takeWhile (\<lambda>c. c \<noteq> CHR ''?'') url4
           in Inr \<lparr> url_scheme = sch, url_netloc = nl, url_path = url5, url_params = [], url_query = qry, url_fragment = frag \<rparr>)"

text \<open>\<open>_splitparams\<close>, called for a \<open>url\<close> that contains a semicolon.\<close>

definition splitparams :: "string \<Rightarrow> string \<times> string" where
  "splitparams url =
     (let segs = split_on (CHR ''/'') url;
          lst = last segs;
          front = join_with ''/'' (butlast segs @ [takeWhile (\<lambda>c. c \<noteq> CHR '';'') lst])
      in if CHR ''/'' \<in> set url
         then (if CHR '';'' \<in> set lst then (front, drop 1 (dropWhile (\<lambda>c. c \<noteq> CHR '';'') lst))
               else (url, []))
         else (takeWhile (\<lambda>c. c \<noteq> CHR '';'') url, drop 1 (dropWhile (\<lambda>c. c \<noteq> CHR '';'') url)))"

definition urlparse :: "(string \<Rightarrow> bool) \<Rightarrow> string \<Rightarrow> string \<Rightarrow> error + url_parts" where
  "urlparse host_ok url scheme0 =
     (case urlsplit host_ok url scheme0 of
        Inl e \<Rightarrow> Inl e
      | Inr r \<Rightarrow>
          if url_scheme r \<in> set uses_params \<and> CHR '';'' \<in> set (url_path r)
          then Inr (r \<lparr> url_path := fst (splitparams (url_path r)), url_params := snd (splitparams (url_path r)) \<rparr>)
          else Inr r)"

definition urlunsplit :: "string \<Rightarrow> string \<Rightarrow> string \<Rightarrow> string \<Rightarrow> string \<Rightarrow> string" where
  "urlunsplit sch nl url qry frag =
     (let u1 = (if nl \<noteq> [] \<or> (sch \<noteq> [] \<and> sch \<in> set uses_netloc) \<or> take 2 url = ''//''
                then ''//'' @ nl @ (if url \<noteq> [] \<and> take 1 url \<noteq> ''/'' then ''/'' @ url else url)
                else url);
          u2 = (if sch \<noteq> [] then sch @ '':'' @ u1 else u1);
          u3 = (if qry \<noteq> [] then u2 @ ''?'' @ qry else u2)
      in if frag \<noteq> [] then u3 @ ''#'' @ frag else u3)"

definition urlunparse :: "url_parts \<Rightarrow> string" where
  "urlunparse r =
     urlunsplit (url_scheme r) (url_netloc r)
       (if url_params r \<noteq> [] then url_path r @ '';'' @ url_params r else url_path r) (url_query r) (url_fragment r)"

definition resolve_segments :: "string list \<Rightarrow> string list" where
  "resolve_segments segments =
     foldl (\<lambda>resolved seg. if seg = ''..'' then butlast resolved
                             else if seg = ''.'' then resolved
                             else resolved @ [seg]) [] segments"

definition urljoin :: "(string \<Rightarrow> bool) \<Rightarrow> string \<Rightarrow> string \<Rightarrow> error + string" where
  "urljoin host_ok base url =
     (if base = [] then Inr url
      else if url = [] then Inr base
      else
        (case urlparse host_ok base [] of
           Inl e \<Rightarrow> Inl e
         | Inr b \<Rightarrow>
             (case urlparse host_ok url (url_scheme b) of
                Inl e \<Rightarrow> Inl e
              | Inr u \<Rightarrow>
                  if url_scheme u \<noteq> url_scheme b \<or> url_scheme u \<notin> set uses_relative then Inr url
                  else if url_scheme u \<in> set uses_netloc \<and> url_netloc u \<noteq> [] then Inr (urlunparse u)
                  else
                    let nl = (if url_scheme u \<in> set uses_netloc then url_netloc b else url_netloc u)
                    in if url_path u = [] \<and> url_params u = []
                       then Inr (urlunparse (u \<lparr> url_netloc := nl, url_path := url_path b, url_params := url_params b,
                                   url_query := (if url_query u = [] then url_query b else url_query u) \<rparr>))
                       else
                         let base_parts0 = split_on (CHR ''/'') (url_path b);
                             base_parts = (if last base_parts0 \<noteq> [] then butlast base_parts0 else base_parts0);
                             joined = base_parts @ split_on (CHR ''/'') (url_path u);
                             segments =
                               (if take 1 (url_path u) = ''/'' then split_on (CHR ''/'') (url_path u)
                                else if length joined < 2 then joined
                                else hd joined # filter (\<lambda>s. s \<noteq> []) (butlast (tl joined)) @ [last joined]);
                             resolved = resolve_segments segments
                                        @ (if last segments = ''.'' \<or> last segments = ''..'' then [[]] else []);
                             p = join_with ''/'' resolved
                         in Inr (urlunparse (u \<lparr> url_netloc := nl, url_path := (if p = [] then ''/'' else p) \<rparr>)))))"

section \<open>The parsed page (BeautifulSoup)\<close>

text \<open>
  The scraper reads a page through the tree that \<open>BeautifulSoup(html, "lxml")\<close> builds.
  The model starts from that tree: an element with its name, its attributes and its
  children, a text node, or a comment.  The soup itself is the element at the root.  An
  attribute value is the text written in the page; the value of \<open>class\<close>, which
  BeautifulSoup keeps as a list, is split where it is read.
\<close>

datatype node =
    Tag string "(string \<times> string) list" "node list"
  | NavigableString string
  | Comment string

text \<open>\<open>tag.descendants\<close>: every node below, in document order.\<close>

fun descendants :: "node \<Rightarrow> node list" where
  "descendants (Tag nm ats cs) = concat (map (\<lambda>c. c # descendants c) cs)"
| "descendants (NavigableString s) = []"
| "descendants (Comment s) = []"

text \<open>\<open>tag.get(key)\<close>; and \<open>tag[key]\<close> where the attribute is known to be present.\<close>

definition tag_get :: "node \<Rightarrow> string \<Rightarrow> string option" where
  "tag_get n k = (case n of Tag nm ats cs \<Rightarrow> map_of ats k | _ \<Rightarrow> None)"

definition tag_attr :: "node \<Rightarrow> string \<Rightarrow> string" where
  "tag_attr n k = (case tag_get n k of Some v \<Rightarrow> v | None \<Rightarrow> [])"

text \<open>The filters of \<open>find\<close> and \<open>find_all\<close>: an element name, \<open>key=True\<close>, \<open>key=value\<close>.\<close>

definition tag_named :: "string \<Rightarrow> node \<Rightarrow> bool" where
  "tag_named nm n = (case n of Tag m ats cs \<Rightarrow> m = nm | _ \<Rightarrow> False)"

definition has_attr :: "string \<Rightarrow> node \<Rightarrow> bool" where
  "has_attr k n \<longleftrightarrow> tag_get n k \<noteq> None"

definition attr_equals :: "string \<Rightarrow> string \<Rightarrow> node \<Rightarrow> bool" where
  "attr_equals k v n \<longleftrightarrow> tag_get n k = Some v"

definition soup_find_all :: "(node \<Rightarrow> bool) \<Rightarrow> node \<Rightarrow> node list" where
  "soup_find_all p n = filter p (descendants n)"

definition soup_find :: "(node \<Rightarrow> bool) \<Rightarrow> node \<Rightarrow> node option" where
  "soup_find p n = (case soup_find_all p n of [] \<Rightarrow> None | x # xs \<Rightarrow> Some x)"

text \<open>
  \<open>tag.get_text(separator, strip)\<close>: the text nodes below (comments are left out), each
  stripped and dropped when empty if \<open>strip\<close> is set, joined by the separator.
\<close>

definition node_strings :: "node \<Rightarrow> string list" where
  "node_strings n = (case n of NavigableString s \<Rightarrow> [s] | _ \<Rightarrow> [])"

definition all_strings :: "bool \<Rightarrow> node \<Rightarrow> string list" where
  "all_strings strp n =
     (let ss = concat (map node_strings (descendants n))
      in if strp then filter (\<lambda>s. s \<noteq> []) (map py_strip ss) else ss)"

definition get_text :: "string \<Rightarrow> bool \<Rightarrow> node \<Rightarrow> string" where
  "get_text sep strp n = join_with sep (all_strings strp n)"

text \<open>
  \<open>tag.string\<close>: the text of an element whose only child is a text node or a comment, or
  an element with such a \<open>string\<close>; \<open>None\<close> otherwise.
\<close>

fun tag_string :: "node \<Rightarrow> string option" where
  "tag_string (Tag nm ats [c]) = tag_string c"
| "tag_string (Tag nm ats cs) = None"
| "tag_string (NavigableString s) = Some s"
| "tag_string (Comment s) = Some s"

text \<open>\<open>tag.get("class", [])\<close>, and \<open>" ".join\<close> of it.\<close>

definition tag_classes :: "node \<Rightarrow> string list" where
  "tag_classes n = (case tag_get n ''class'' of None \<Rightarrow> [] | Some v \<Rightarrow> py_split v)"

section \<open>The scraper (extractors/quora_parser.py)\<close>

definition DEFAULT_BASE_URL :: string where
  "DEFAULT_BASE_URL = ''https://www.quora.com''"

text \<open>\<open>_normalize_url\<close>.\<close>

definition normalize_url :: "(string \<Rightarrow> bool) \<Rightarrow> string \<Rightarrow> error + string" where
  "normalize_url host_ok url =
     (case urlparse host_ok url [] of
        Inl e \<Rightarrow> Inl e
      | Inr parsed \<Rightarrow>
          if url_scheme parsed = [] then urljoin host_ok DEFAULT_BASE_URL url else Inr url)"

subsection \<open>The search page\<close>

text \<open>
  The loop of \<open>_parse_search_results_page\<close> over the \<open>href\<close> values of the links, with
  the list \<open>question_urls\<close> built so far.
\<close>

fun collect_question_urls ::
  "(string \<Rightarrow> bool) \<Rightarrow> string list \<Rightarrow> string list \<Rightarrow> error + string list" where
  "collect_question_urls host_ok question_urls [] = Inr question_urls"
| "collect_question_urls host_ok question_urls (href # rest) =
     (if startswith href ''http'' \<and> \<not> contains ''quora.com'' href
      then collect_question_urls host_ok question_urls rest
      else if contains ''/profile/'' href
      then collect_question_urls host_ok question_urls rest
      else if contains ''answer/'' href
      then collect_question_urls host_ok question_urls rest
      else if contains ''/What-'' href \<or> contains ''/How-'' href \<or> contains ''/Why-'' href
              \<or> contains ''/Is-'' href \<or> contains ''/Can-'' href
      then (case normalize_url host_ok href of
              Inl e \<Rightarrow> Inl e
            | Inr full_url \<Rightarrow>
                collect_question_urls host_ok
                  (if full_url \<notin> set question_urls then question_urls @ [full_url]
                   else question_urls) rest)
      else if contains ''/question/'' href
      then (case normalize_url host_ok href of
              Inl e \<Rightarrow> Inl e
            | Inr full_url \<Rightarrow>
                collect_question_urls host_ok
                  (if full_url \<notin> set question_urls then question_urls @ [full_url]
                   else question_urls) rest)
      else collect_question_urls host_ok question_urls rest)"

text \<open>\<open>soup.find_all("a", href=True)\<close>, and the \<open>href\<close> of each link found.\<close>

definition link_targets :: "node \<Rightarrow> string list" where
  "link_targets soup =
     map (\<lambda>a. tag_attr a ''href'')
       (soup_find_all (\<lambda>n. tag_named ''a'' n \<and> has_attr ''href'' n) soup)"

text \<open>\<open>_parse_search_results_page\<close>, on the parsed page.\<close>

definition parse_search_results_page :: "(string \<Rightarrow> bool) \<Rightarrow> node \<Rightarrow> error + string list" where
  "parse_search_results_page host_ok soup = collect_question_urls host_ok [] (link_targets soup)"

subsection \<open>Field extraction helpers\<close>

text \<open>\<open>_extract_title\<close>.\<close>

definition extract_title :: "node \<Rightarrow> string" where
  "extract_title soup =
     (case (case soup_find (\<lambda>n. tag_named ''meta'' n \<and> attr_equals ''property'' ''og:title'' n) soup of
              None \<Rightarrow> None
            | Some og_title \<Rightarrow>
                (case tag_get og_title ''content'' of
                   None \<Rightarrow> None
                 | Some content \<Rightarrow> if content = [] then None else Some (py_strip content))) of
        Some t \<Rightarrow> t
      | None \<Rightarrow>
          (case (case soup_find (tag_named ''title'') soup of
                   None \<Rightarrow> None
                 | Some title_tag \<Rightarrow>
                     (case tag_string title_tag of
                        None \<Rightarrow> None
                      | Some s \<Rightarrow> if s = [] then None else Some (py_strip s))) of
             Some t \<Rightarrow> t
           | None \<Rightarrow>
               (case (case soup_find (tag_named ''h1'') soup of
                        None \<Rightarrow> None
                      | Some heading \<Rightarrow>
                          if get_text [] True heading = [] then None
                          else Some (get_text [] True heading)) of
                  Some t \<Rightarrow> t
                | None \<Rightarrow> ''Quora Question'')))"

text \<open>
  \<open>_extract_qid\<close>.  Each \<open>int(...)\<close> stands in a \<open>try\<close> that catches \<open>ValueError\<close>, so
  a failed conversion moves on to the next strategy.
\<close>

definition extract_qid :: "node \<Rightarrow> string \<Rightarrow> int option" where
  "extract_qid soup url =
     (let meta_qid =
            (case soup_find (\<lambda>n. tag_named ''meta'' n \<and> attr_equals ''name'' ''qid'' n) soup of
               Some m \<Rightarrow> Some m
             | None \<Rightarrow> soup_find (\<lambda>n. tag_named ''meta'' n \<and> attr_equals ''property'' ''qid'' n) soup);
          from_meta =
            (case meta_qid of
               None \<Rightarrow> None
             | Some m \<Rightarrow>
                 (case tag_get m ''content'' of
                    None \<Rightarrow> None
                  | Some content \<Rightarrow> if content = [] then None else py_int 10 content));
          from_holder =
            (case soup_find (has_attr ''data-qid'') soup of
               None \<Rightarrow> None
             | Some qid_holder \<Rightarrow>
                 (case tag_get qid_holder ''data-qid'' of
                    None \<Rightarrow> None
                  | Some v \<Rightarrow> py_int 10 v));
          digest = sha256_hexdigest url
      in case from_meta of
           Some q \<Rightarrow> Some q
         | None \<Rightarrow>
             (case from_holder of
                Some q \<Rightarrow> Some q
              | None \<Rightarrow> py_int 16 (take 12 digest)))"

text \<open>\<open>_parse_compact_number\<close>.\<close>

definition parse_compact_number :: "string \<Rightarrow> error + int option" where
  "parse_compact_number token0 =
     (let token = filter (\<lambda>c. c \<noteq> CHR '','') (py_strip token0)
      in if token = [] then Inr None
         else
           let lst = py_lower [last token];
               multiplier = (if lst = ''k'' then 1000 else if lst = ''m'' then 1000000 else 1);
               token1 = (if lst = ''k'' \<or> lst = ''m'' then butlast token else token)
           in (case py_float token1 of
                 None \<Rightarrow> Inr None
               | Some v \<Rightarrow>
                   (case int_of_float (float_mul v multiplier) of
                      Inr n \<Rightarrow> Inr (Some n)
                    | Inl (ValueError msg) \<Rightarrow> Inr None
                    | Inl e \<Rightarrow> Inl e)))"

text \<open>
  The loops of \<open>_extract_upvotes\<close> and \<open>_extract_views\<close> over the tokens; \<open>prev\<close> is the
  token before the current one, \<open>None\<close> at the first token.
\<close>

fun upvotes_loop :: "string option \<Rightarrow> string list \<Rightarrow> error + int option" where
  "upvotes_loop prev [] = Inr None"
| "upvotes_loop prev (tok # rest) =
     (if contains ''upvote'' tok
      then (case prev of
              None \<Rightarrow> upvotes_loop (Some tok) rest
            | Some maybe \<Rightarrow>
                (case parse_compact_number maybe of
                   Inl e \<Rightarrow> Inl e
                 | Inr (Some parsed) \<Rightarrow> Inr (Some parsed)
                 | Inr None \<Rightarrow> upvotes_loop (Some tok) rest))
      else upvotes_loop (Some tok) rest)"

definition extract_upvotes :: "node \<Rightarrow> error + int option" where
  "extract_upvotes container =
     (let lowered = py_lower (get_text '' '' True container)
      in if \<not> contains ''upvote'' lowered then Inr None
         else upvotes_loop None (py_split lowered))"

fun views_loop :: "string option \<Rightarrow> string list \<Rightarrow> error + int option" where
  "views_loop prev [] = Inr None"
| "views_loop prev (tok # rest) =
     (if contains ''view'' tok
      then (case prev of
              None \<Rightarrow> views_loop (Some tok) rest
            | Some maybe \<Rightarrow>
                (case parse_compact_number maybe of
                   Inl e \<Rightarrow> Inl e
                 | Inr (Some parsed) \<Rightarrow> Inr (Some parsed)
                 | Inr None \<Rightarrow> views_loop (Some tok) rest))
      else views_loop (Some tok) rest)"

definition extract_views :: "node \<Rightarrow> error + int option" where
  "extract_views container =
     (let lowered = py_lower (get_text '' '' True container)
      in if \<not> contains ''view'' lowered then Inr None
         else views_loop None (py_split lowered))"

text \<open>\<open>_extract_author\<close>: the profile URL and the author's name.\<close>

definition extract_author :: "(string \<Rightarrow> bool) \<Rightarrow> node \<Rightarrow> error + (string option \<times> string option)" where
  "extract_author host_ok container =
     (let is_link = (\<lambda>n. tag_named ''a'' n \<and> has_attr ''href'' n);
          scan = List.find (\<lambda>a. contains ''/profile/'' (tag_attr a ''href''))
                   (soup_find_all is_link container);
          best_link =
            (case soup_find is_link container of
               None \<Rightarrow> scan
             | Some link \<Rightarrow> if contains ''/profile/'' (tag_attr link ''href'') then Some link else scan)
      in case best_link of
           None \<Rightarrow> Inr (None, None)
         | Some a \<Rightarrow>
             (case normalize_url host_ok (tag_attr a ''href'') of
                Inl e \<Rightarrow> Inl e
              | Inr full_url \<Rightarrow>
                  Inr (Some full_url,
                       if get_text [] True a = [] then None else Some (get_text [] True a))))"

text \<open>The dictionary that \<open>_build_answer_dict\<close> returns.\<close>

record answer_block =
  block_text :: string
  block_upvotes :: "int option"
  block_views :: "int option"
  block_profile_url :: "string option"
  block_author_name :: "string option"

definition build_answer_dict :: "(string \<Rightarrow> bool) \<Rightarrow> node \<Rightarrow> string \<Rightarrow> error + answer_block" where
  "build_answer_dict host_ok container txt =
     (case extract_upvotes container of
        Inl e \<Rightarrow> Inl e
      | Inr upvotes \<Rightarrow>
          (case extract_views container of
             Inl e \<Rightarrow> Inl e
           | Inr views \<Rightarrow>
               (case extract_author host_ok container of
                  Inl e \<Rightarrow> Inl e
                | Inr (profile_url, author_name) \<Rightarrow>
                    Inr \<lparr> block_text = txt, block_upvotes = upvotes, block_views = views,
                          block_profile_url = profile_url, block_author_name = author_name \<rparr>)))"

subsection \<open>The answer blocks\<close>

text \<open>
  The two loops of \<open>_extract_answer_blocks\<close> over the candidate containers, and the loop
  that removes the blocks whose text was seen before.
\<close>

fun testid_blocks :: "(string \<Rightarrow> bool) \<Rightarrow> node list \<Rightarrow> error + answer_block list" where
  "testid_blocks host_ok [] = Inr []"
| "testid_blocks host_ok (container # rest) =
     (if contains ''answer'' (py_lower (tag_attr container ''data-testid''))
         \<and> get_text '' '' True container \<noteq> []
      then (case build_answer_dict host_ok container (get_text '' '' True container) of
              Inl e \<Rightarrow> Inl e
            | Inr a \<Rightarrow>
                (case testid_blocks host_ok rest of
                   Inl e \<Rightarrow> Inl e
                 | Inr others \<Rightarrow> Inr (a # others)))
      else testid_blocks host_ok rest)"

fun div_blocks :: "(string \<Rightarrow> bool) \<Rightarrow> node list \<Rightarrow> error + answer_block list" where
  "div_blocks host_ok [] = Inr []"
| "div_blocks host_ok (container # rest) =
     (if contains ''answer'' (py_lower (join_with '' '' (tag_classes container)))
         \<and> 50 < length (get_text [] True container)
      then (case build_answer_dict host_ok container (get_text '' '' True container) of
              Inl e \<Rightarrow> Inl e
            | Inr a \<Rightarrow>
                (case div_blocks host_ok rest of
                   Inl e \<Rightarrow> Inl e
                 | Inr others \<Rightarrow> Inr (a # others)))
      else div_blocks host_ok rest)"

fun dedupe :: "string list \<Rightarrow> answer_block list \<Rightarrow> answer_block list" where
  "dedupe seen_texts [] = []"
| "dedupe seen_texts (a # rest) =
     (if block_text a \<in> set seen_texts then dedupe seen_texts rest
      else a # dedupe (block_text a # seen_texts) rest)"

definition extract_answer_blocks :: "(string \<Rightarrow> bool) \<Rightarrow> node \<Rightarrow> error + answer_block list" where
  "extract_answer_blocks host_ok soup =
     (case testid_blocks host_ok (soup_find_all (has_attr ''data-testid'') soup) of
        Inl e \<Rightarrow> Inl e
      | Inr found \<Rightarrow>
          if found = []
          then (case div_blocks host_ok (soup_find_all (tag_named ''div'') soup) of
                  Inl e \<Rightarrow> Inl e
                | Inr answers \<Rightarrow> Inr (dedupe [] answers))
          else Inr (dedupe [] found))"

subsection \<open>The question page\<close>

text \<open>\<open>_build_encoded_id\<close>: \<open>qid or 0\<close> is 0 for an absent identifier.\<close>

definition build_encoded_id :: "int option \<Rightarrow> int \<Rightarrow> string" where
  "build_encoded_id qid answer_index =
     (let base = ''Question@'' @ str_of_int (case qid of None \<Rightarrow> 0 | Some q \<Rightarrow> q)
                  @ '':'' @ str_of_int answer_index
      in take 32 (sha256_hexdigest base))"

text \<open>
  The records.  The field \<open>id\<close> of the source is \<open>record_id\<close> here; an entry of \<open>names\<close>
  is the dictionary with the keys \<open>givenName\<close> and \<open>familyName\<close>.
\<close>

record name_entry =
  givenName :: string
  familyName :: string

record QuoraAnswerRecord =
  index :: int
  qid :: "int option"
  record_id :: string
  url :: string
  title :: string
  creationTime :: string
  answerCount :: int
  answers :: string
  numUpvotes :: "int option"
  numViews :: "int option"
  profileUrl :: "string option"
  names :: "name_entry list"

text \<open>The record that the loop of \<open>_parse_question_page\<close> builds for one answer block.\<close>

definition answer_record ::
  "string \<Rightarrow> int option \<Rightarrow> string \<Rightarrow> string \<Rightarrow> int \<Rightarrow> nat \<times> answer_block \<Rightarrow> QuoraAnswerRecord" where
  "answer_record page_title page_qid page_url creation_time_iso n ia =
     \<lparr> index = int (fst ia),
       qid = page_qid,
       record_id = build_encoded_id page_qid (int (fst ia)),
       url = page_url,
       title = page_title,
       creationTime = creation_time_iso,
       answerCount = n,
       answers = py_strip (block_text (snd ia)),
       numUpvotes = block_upvotes (snd ia),
       numViews = block_views (snd ia),
       profileUrl = block_profile_url (snd ia),
       names = [\<lparr> givenName = (case block_author_name (snd ia) of None \<Rightarrow> [] | Some nm \<Rightarrow> nm),
                  familyName = [] \<rparr>] \<rparr>"

text \<open>
  \<open>_parse_question_page\<close>, on the parsed page.  \<open>creation_time_iso\<close> is the value of
  \<open>to_iso(now_utc())\<close>, from the module \<open>utils_time\<close>.
\<close>

definition parse_question_page ::
  "(string \<Rightarrow> bool) \<Rightarrow> string \<Rightarrow> node \<Rightarrow> string \<Rightarrow> error + QuoraAnswerRecord list" where
  "parse_question_page host_ok creation_time_iso soup page_url =
     (let page_title = extract_title soup;
          page_qid = extract_qid soup page_url
      in case extract_answer_blocks host_ok soup of
           Inl e \<Rightarrow> Inl e
         | Inr answers_blocks \<Rightarrow>
             let records = map (answer_record page_title page_qid page_url creation_time_iso
                                  (int (length answers_blocks)))
                             (enumerate 1 answers_blocks)
             in if records = []
                then Inr [\<lparr> index = 1,
                           qid = page_qid,
                           record_id = build_encoded_id page_qid 1,
                           url = page_url,
                           title = page_title,
                           creationTime = creation_time_iso,
                           answerCount = 0,
                           answers = take 5000 (get_text '' '' True soup),
                           numUpvotes = None,
                           numViews = None,
                           profileUrl = None,
                           names = [\<lparr> givenName = [], familyName = [] \<rparr>] \<rparr>]
                else Inr records)"

section \<open>The exporter (outputs/exporters.py)\<close>

text \<open>
  The exporter acts on the file system through \<open>os.makedirs\<close>, \<open>open\<close> with
  \<open>json.dump\<close>, and the three \<open>DataFrame.to_...\<close> writers of pandas.  None of them is
  code of the repository, so they are parameters of the model: each one is a transformer of
  an abstract world \<open>'w\<close> that also says whether it raised (\<open>Some e\<close>) or returned
  (\<open>None\<close>).  A writer that raises may still have changed the world (a partial file).
\<close>

record ('r, 'w) os_ops =
  os_makedirs :: "string \<Rightarrow> 'w \<Rightarrow> error option \<times> 'w"
  json_dump :: "'r list \<Rightarrow> string \<Rightarrow> 'w \<Rightarrow> error option \<times> 'w"
  df_to_csv :: "'r list \<Rightarrow> string \<Rightarrow> 'w \<Rightarrow> error option \<times> 'w"
  df_to_excel :: "'r list \<Rightarrow> string \<Rightarrow> 'w \<Rightarrow> error option \<times> 'w"
  df_to_html :: "'r list \<Rightarrow> string \<Rightarrow> 'w \<Rightarrow> error option \<times> 'w"

text \<open>\<open>_ensure_dir\<close>: \<open>os.makedirs(path, exist_ok=True)\<close>.\<close>

definition ensure_dir :: "('r, 'w) os_ops \<Rightarrow> string \<Rightarrow> 'w \<Rightarrow> error option \<times> 'w" where
  "ensure_dir os path w = os_makedirs os path w"

text \<open>
  The four writers log a failure and re-raise it, so each is the library call itself.
\<close>

definition export_json :: "('r, 'w) os_ops \<Rightarrow> 'r list \<Rightarrow> string \<Rightarrow> 'w \<Rightarrow> error option \<times> 'w" where
  "export_json os records path w = json_dump os records path w"

definition export_csv :: "('r, 'w) os_ops \<Rightarrow> 'r list \<Rightarrow> string \<Rightarrow> 'w \<Rightarrow> error option \<times> 'w" where
  "export_csv os df path w = df_to_csv os df path w"

definition export_excel :: "('r, 'w) os_ops \<Rightarrow> 'r list \<Rightarrow> string \<Rightarrow> 'w \<Rightarrow> error option \<times> 'w" where
  "export_excel os df path w = df_to_excel os df path w"

definition export_html :: "('r, 'w) os_ops \<Rightarrow> 'r list \<Rightarrow> string \<Rightarrow> 'w \<Rightarrow> error option \<times> 'w" where
  "export_html os df path w = df_to_html os df path w"

text \<open>The literal dictionary of \<open>export_data\<close> that maps a format to its extension.\<close>

definition ext_table :: "(string \<times> string) list" where
  "ext_table = [(''json'', ''json''), (''csv'', ''csv''), (''excel'', ''xlsx''), (''html'', ''html'')]"

text \<open>\<open>os.path.join\<close> with two arguments, on a POSIX system.\<close>

definition os_path_join :: "string \<Rightarrow> string \<Rightarrow> string" where
  "os_path_join a b =
     (if take 1 b = ''/'' then b
      else if a = [] \<or> last a = CHR ''/'' then a @ b
      else a @ ''/'' @ b)"

text \<open>
  \<open>export_data\<close>.  \<open>ts\<close> is the value of \<open>timestamp_for_filename(now_utc())\<close>, from
  the module \<open>utils_time\<close>; the data frame built from the records is the list of records.
  The result is the raised exception or the returned path, with the world as the call
  leaves it.
\<close>

definition export_data ::
  "('r, 'w) os_ops \<Rightarrow> string \<Rightarrow> 'r list \<Rightarrow> string \<Rightarrow> string \<Rightarrow> string \<Rightarrow> 'w
     \<Rightarrow> (error + string) \<times> 'w" where
  "export_data os ts records output_dir base_filename fmt w =
     (if fmt \<notin> {''json'', ''csv'', ''excel'', ''html''}
      then (Inl (ValueError (''Unsupported format: '' @ fmt)), w)
      else
        (case ensure_dir os output_dir w of
           (Some e, w1) \<Rightarrow> (Inl e, w1)
         | (None, w1) \<Rightarrow>
             (case map_of ext_table fmt of
                None \<Rightarrow> (Inl (KeyError fmt), w1)
              | Some ext \<Rightarrow>
                  let filename = base_filename @ ''_'' @ ts @ ''.'' @ ext;
                      path = os_path_join output_dir filename;
                      written =
                        (if fmt = ''json'' then export_json os records path w1
                         else if fmt = ''csv'' then export_csv os records path w1
                         else if fmt = ''excel'' then export_excel os records path w1
                         else if fmt = ''html'' then export_html os records path w1
                         else (None, w1))
                  in (case written of
                        (Some e, w2) \<Rightarrow> (Inl e, w2)
                      | (None, w2) \<Rightarrow> (Inr path, w2)))))"

text \<open>
  A file system for running the model: the world is the list of the operations performed so
  far, and no operation fails.
\<close>

datatype 'r fs_op =
    MakeDirs string
  | WriteJson string "'r list"
  | WriteCsv string "'r list"
  | WriteExcel string "'r list"
  | WriteHtml string "'r list"

definition logging_os :: "('r, 'r fs_op list) os_ops" where
  "logging_os =
     \<lparr> os_makedirs = (\<lambda>p w. (None, w @ [MakeDirs p])),
       json_dump = (\<lambda>rs p w. (None, w @ [WriteJson p rs])),
       df_to_csv = (\<lambda>rs p w. (None, w @ [WriteCsv p rs])),
       df_to_excel = (\<lambda>rs p w. (None, w @ [WriteExcel p rs])),
       df_to_html = (\<lambda>rs p w. (None, w @ [WriteHtml p rs])) \<rparr>"

text \<open>
  The file-system operations never raise: the condition under which the outcome of
  \<open>export_data\<close> is decided by the format string alone.
\<close>

definition os_succeeds :: "('r, 'w) os_ops \<Rightarrow> bool" where
  "os_succeeds os \<longleftrightarrow>
     (\<forall>p w. fst (os_makedirs os p w) = None) \<and>
     (\<forall>rs p w. fst (json_dump os rs p w) = None) \<and>
     (\<forall>rs p w. fst (df_to_csv os rs p w) = None) \<and>
     (\<forall>rs p w. fst (df_to_excel os rs p w) = None) \<and>
     (\<forall>rs p w. fst (df_to_html os rs p w) = None)"

section \<open>Example pages\<close>

text \<open>Parsed pages on which the theorems below are run.\<close>

definition one_answer_page :: node where
  "one_answer_page =
     Tag ''[document]'' []
       [Tag ''div'' [(''data-testid'', ''answer-card'')] [NavigableString ''Paris is the capital.'']]"

definition plain_page :: node where
  "plain_page =
     Tag ''[document]'' []
       [Tag ''p'' [] [NavigableString '' Nothing to see ''], Tag ''p'' [] [NavigableString ''here'']]"

definition five_links_page :: node where
  "five_links_page =
     Tag ''[document]'' []
       [Tag ''a'' [(''href'', ''/profile/alice'')] [NavigableString ''Alice''],
        Tag ''div'' []
          [Tag ''a'' [(''href'', ''/What-is-AI'')] [NavigableString ''What is AI?''],
           Tag ''a'' [(''href'', ''/answer/123'')] []],
        Tag ''a'' [(''href'', ''https://other.com/x'')] [],
        Tag ''a'' [(''name'', ''top'')] [],
        Tag ''a'' [(''href'', ''/question/456-foo'')] []]"



section \<open>Notions used in the statements\<close>

text \<open>The characters of a lower-case hexadecimal digest.\<close>

definition is_lower_hex :: "char \<Rightarrow> bool" where
  "is_lower_hex c \<longleftrightarrow> c \<in> set ''0123456789abcdef''"

text \<open>
  A page without a question-identifier signal: no \<open>meta\<close> element named or typed
  \<open>qid\<close>, and no element with a \<open>data-qid\<close> attribute.
\<close>

definition no_qid_signal :: "node \<Rightarrow> bool" where
  "no_qid_signal soup \<longleftrightarrow>
     soup_find (\<lambda>n. tag_named ''meta'' n \<and> attr_equals ''name'' ''qid'' n) soup = None
     \<and> soup_find (\<lambda>n. tag_named ''meta'' n \<and> attr_equals ''property'' ''qid'' n) soup = None
     \<and> soup_find (has_attr ''data-qid'') soup = None"

section \<open>Properties of the exporter\<close>

lemma os_path_join_suffix: "\<exists>pre. os_path_join a (b @ s) = pre @ s"
proof (cases "take 1 (b @ s) = ''/''")
  case True
  then have "os_path_join a (b @ s) = b @ s" by (simp add: os_path_join_def)
  then show ?thesis by blast
next
  case False
  then have "os_path_join a (b @ s) = (a @ b) @ s \<or> os_path_join a (b @ s) = (a @ ''/'' @ b) @ s"
    by (simp add: os_path_join_def)
  then show ?thesis by blast
qed

text \<open>
  C8.  For every record list and every output parameter, a format string outside the
  supported set makes \<open>export_data\<close> raise \<open>ValueError\<close> with the world exactly as it was:
  whatever the file-system operations would do, none of them has run.
\<close>

theorem export_data_unsupported_format:
  assumes "fmt \<notin> {''json'', ''csv'', ''excel'', ''html''}"
  shows "export_data os ts records output_dir base_filename fmt w
           = (Inl (ValueError (''Unsupported format: '' @ fmt)), w)"
  using assms by (simp add: export_data_def)

theorem export_data_unsupported_format_witness:
  "''pdf'' \<notin> {''json'', ''csv'', ''excel'', ''html''}
   \<and> export_data logging_os ''20240101_000000'' [1::nat, 2] ''out'' ''quora_results'' ''pdf'' []
       = (Inl (ValueError ''Unsupported format: pdf''), [])"
proof -
  have h: "''pdf'' \<notin> {''json'', ''csv'', ''excel'', ''html''}" by simp
  show ?thesis
    using h export_data_unsupported_format [OF h, of logging_os "''20240101_000000''"
        "[1::nat, 2]" "''out''" "''quora_results''" "[]"]
    by simp
qed

lemma export_data_accepted:
  assumes ok: "os_succeeds os"
    and ext: "map_of ext_table fmt = Some ext"
    and fmt: "fmt \<in> {''json'', ''csv'', ''excel'', ''html''}"
  shows "\<exists>w'. export_data os ts records output_dir base_filename fmt w
           = (Inr (os_path_join output_dir (base_filename @ ''_'' @ ts @ ''.'' @ ext)), w')"
proof -
  obtain w1 where mk: "os_makedirs os output_dir w = (None, w1)"
    using ok by (metis os_succeeds_def prod.collapse)
  let ?path = "os_path_join output_dir (base_filename @ ''_'' @ ts @ ''.'' @ ext)"
  obtain wj where j: "json_dump os records ?path w1 = (None, wj)"
    using ok by (metis os_succeeds_def prod.collapse)
  obtain wc where c: "df_to_csv os records ?path w1 = (None, wc)"
    using ok by (metis os_succeeds_def prod.collapse)
  obtain we where e: "df_to_excel os records ?path w1 = (None, we)"
    using ok by (metis os_succeeds_def prod.collapse)
  obtain wh where h: "df_to_html os records ?path w1 = (None, wh)"
    using ok by (metis os_succeeds_def prod.collapse)
  from fmt consider "fmt = ''json''" | "fmt = ''csv''" | "fmt = ''excel''" | "fmt = ''html''"
    by auto
  then show ?thesis
  proof cases
    case 1
    with ext mk j show ?thesis
      by (simp add: export_data_def ensure_dir_def export_json_def Let_def)
  next
    case 2
    with ext mk c show ?thesis
      by (simp add: export_data_def ensure_dir_def export_csv_def Let_def)
  next
    case 3
    with ext mk e show ?thesis
      by (simp add: export_data_def ensure_dir_def export_excel_def Let_def)
  next
    case 4
    with ext mk h show ?thesis
      by (simp add: export_data_def ensure_dir_def export_html_def Let_def)
  qed
qed

lemma ext_table_supported:
  "fmt \<in> {''json'', ''csv'', ''excel'', ''html''} \<Longrightarrow> \<exists>ext. map_of ext_table fmt = Some ext"
  by (auto simp: ext_table_def)

text \<open>
  C10.  When no file-system operation fails, \<open>export_data\<close> returns a path exactly for
  the format strings "json", "csv", "excel" and "html"; the format "excel" gives the path
  of a file whose name ends in ".xlsx"; and the format string "xlsx" is rejected with
  \<open>ValueError\<close>, whatever the file-system operations do.
\<close>

theorem export_data_accepts_exactly:
  assumes "os_succeeds os"
  shows "((\<exists>path w'. export_data os ts records output_dir base_filename fmt w = (Inr path, w'))
            \<longleftrightarrow> fmt \<in> {''json'', ''csv'', ''excel'', ''html''})
       \<and> (\<exists>pre w'. export_data os ts records output_dir base_filename ''excel'' w
              = (Inr (pre @ ''.xlsx''), w'))
       \<and> (\<exists>w'. export_data os ts records output_dir base_filename ''excel'' w
              = (Inr (os_path_join output_dir (base_filename @ ''_'' @ ts @ ''.xlsx'')), w'))
       \<and> export_data os' ts records output_dir base_filename ''xlsx'' w
              = (Inl (ValueError ''Unsupported format: xlsx''), w)"
proof (intro conjI)
  show "(\<exists>path w'. export_data os ts records output_dir base_filename fmt w = (Inr path, w'))
          \<longleftrightarrow> fmt \<in> {''json'', ''csv'', ''excel'', ''html''}"
  proof
    assume "\<exists>path w'. export_data os ts records output_dir base_filename fmt w = (Inr path, w')"
    then show "fmt \<in> {''json'', ''csv'', ''excel'', ''html''}"
      by (auto simp: export_data_def split: if_splits)
  next
    assume fmt: "fmt \<in> {''json'', ''csv'', ''excel'', ''html''}"
    then obtain ext where "map_of ext_table fmt = Some ext"
      using ext_table_supported by blast
    from export_data_accepted [OF assms this fmt]
    show "\<exists>path w'. export_data os ts records output_dir base_filename fmt w = (Inr path, w')"
      by blast
  qed
next
  have x: "map_of ext_table ''excel'' = Some ''xlsx''" by (simp add: ext_table_def)
  have m: "''excel'' \<in> {''json'', ''csv'', ''excel'', ''html''}" by simp
  from export_data_accepted [OF assms x m]
  show e: "\<exists>w'. export_data os ts records output_dir base_filename ''excel'' w
           = (Inr (os_path_join output_dir (base_filename @ ''_'' @ ts @ ''.xlsx'')), w')"
    by simp
  obtain pre where "os_path_join output_dir ((base_filename @ ''_'' @ ts) @ ''.xlsx'') = pre @ ''.xlsx''"
    using os_path_join_suffix by blast
  with e show "\<exists>pre w'. export_data os ts records output_dir base_filename ''excel'' w
              = (Inr (pre @ ''.xlsx''), w')"
    by auto
next
  show "export_data os' ts records output_dir base_filename ''xlsx'' w
          = (Inl (ValueError ''Unsupported format: xlsx''), w)"
    by (simp add: export_data_def)
qed

lemma logging_os_succeeds: "os_succeeds logging_os"
  by (simp add: os_succeeds_def logging_os_def)

theorem export_data_accepts_exactly_witness:
  "os_succeeds (logging_os :: (nat, nat fs_op list) os_ops)
   \<and> export_data logging_os ''T'' [1::nat] ''out'' ''quora_results'' ''excel'' []
       = (Inr ''out/quora_results_T.xlsx'',
          [MakeDirs ''out'', WriteExcel ''out/quora_results_T.xlsx'' [1]])
   \<and> export_data logging_os ''T'' [1::nat] ''out'' ''quora_results'' ''xlsx'' []
       = (Inl (ValueError ''Unsupported format: xlsx''), [])"
proof -
  have ok: "os_succeeds (logging_os :: (nat, nat fs_op list) os_ops)"
    by (rule logging_os_succeeds)
  have run: "export_data logging_os ''T'' [1::nat] ''out'' ''quora_results'' ''excel'' []
       = (Inr ''out/quora_results_T.xlsx'',
          [MakeDirs ''out'', WriteExcel ''out/quora_results_T.xlsx'' [1]])"
    by (simp add: export_data_def ensure_dir_def export_excel_def logging_os_def ext_table_def
        os_path_join_def Let_def)
  show ?thesis
    using ok run
      export_data_accepts_exactly [OF ok, of "''T''" "[1::nat]" "''out''" "''quora_results''"
        "''excel''" "[]" logging_os]
    by simp
qed

section \<open>Properties of the scraper\<close>

subsection \<open>Compact numbers\<close>

lemma parse_compact_number_examples:
  "parse_compact_number ''1.2k'' = Inr (Some 1200)
   \<and> parse_compact_number ''3m'' = Inr (Some 3000000)
   \<and> parse_compact_number ''452'' = Inr (Some 452)
   \<and> parse_compact_number [] = Inr None
   \<and> parse_compact_number ''abc'' = Inr None"
  by code_simp

text \<open>
  A failure of \<open>float\<close> and the NaN are caught; the only exception that leaves
  \<open>_parse_compact_number\<close> is the \<open>OverflowError\<close> of an infinity.
\<close>

lemma int_of_float_error:
  "int_of_float x = Inl e \<Longrightarrow>
     (x = NaN \<and> e = ValueError ''cannot convert float NaN to integer'')
     \<or> ((x = PosInf \<or> x = NegInf) \<and> e = OverflowError ''cannot convert float infinity to integer'')"
  by (cases x) (auto simp: int_of_float_def)

lemma parse_compact_number_raises_overflow_only:
  assumes "parse_compact_number token = Inl e"
  shows "e = OverflowError ''cannot convert float infinity to integer''"
  using assms
  by (auto simp: parse_compact_number_def Let_def
      split: if_splits option.splits sum.splits error.splits dest!: int_of_float_error)

text \<open>
  C3.  The five examples hold (\<open>parse_compact_number_examples\<close>), but not every token
  that gives no number yields absence: on the token "inf" the call \<open>float\<close> succeeds with
  an infinity, \<open>int\<close> of it raises \<open>OverflowError\<close>, and the handler of
  \<open>_parse_compact_number\<close> catches \<open>ValueError\<close> only, so the exception leaves the parser.
\<close>

theorem parse_compact_number_infinity_raises:
  "parse_compact_number ''inf''
     = Inl (OverflowError ''cannot convert float infinity to integer'')"
  by code_simp

subsection \<open>The title\<close>

text \<open>
  C7.  The title is not always the first non-empty candidate, and it can be empty: for a
  page whose \<open>og:title\<close> content is one blank and whose \<open>title\<close> element reads
  "Real title", \<open>_extract_title\<close> tests the content before stripping it and returns the
  stripped content, the empty string.
\<close>

theorem extract_title_blank_og_title:
  "extract_title
     (Tag ''[document]'' []
        [Tag ''meta'' [(''property'', ''og:title''), (''content'', '' '')] [],
         Tag ''title'' [] [NavigableString ''Real title'']]) = []"
  by code_simp

subsection \<open>The question page\<close>

lemma enumerate_Nil_iff: "enumerate n xs = [] \<longleftrightarrow> xs = []"
  by (cases xs) simp_all

lemma parse_question_page_records:
  assumes "extract_answer_blocks host_ok soup = Inr blocks"
  shows "parse_question_page host_ok now soup page_url =
           (if blocks = []
            then Inr [\<lparr> index = 1,
                       qid = extract_qid soup page_url,
                       record_id = build_encoded_id (extract_qid soup page_url) 1,
                       url = page_url,
                       title = extract_title soup,
                       creationTime = now,
                       answerCount = 0,
                       answers = take 5000 (get_text '' '' True soup),
                       numUpvotes = None,
                       numViews = None,
                       profileUrl = None,
                       names = [\<lparr> givenName = [], familyName = [] \<rparr>] \<rparr>]
            else Inr (map (answer_record (extract_title soup) (extract_qid soup page_url) page_url now
                            (int (length blocks)))
                        (enumerate 1 blocks)))"
  using assms by (simp add: parse_question_page_def Let_def enumerate_Nil_iff)

text \<open>
  C1.  If the answer-block locator returns \<open>N \<ge> 1\<close> blocks, \<open>_parse_question_page\<close>
  returns exactly \<open>N\<close> records, a non-empty list; the record at position \<open>i\<close> (from 0)
  has \<open>index = i + 1\<close>, \<open>answerCount = N\<close>, and the stripped text of the block at that
  position.
\<close>

theorem parse_question_page_blocks:
  assumes blocks: "extract_answer_blocks host_ok soup = Inr blocks"
    and nonempty: "1 \<le> length blocks"
  shows "\<exists>records.
           parse_question_page host_ok now soup page_url = Inr records
           \<and> records \<noteq> []
           \<and> length records = length blocks
           \<and> (\<forall>i < length blocks.
                  index (records ! i) = int i + 1
                  \<and> answerCount (records ! i) = int (length blocks)
                  \<and> answers (records ! i) = py_strip (block_text (blocks ! i)))"
proof -
  let ?records = "map (answer_record (extract_title soup) (extract_qid soup page_url) page_url now
                        (int (length blocks))) (enumerate 1 blocks)"
  from nonempty have ne: "blocks \<noteq> []" by auto
  have run: "parse_question_page host_ok now soup page_url = Inr ?records"
    using parse_question_page_records [OF blocks] ne by simp
  have len: "length ?records = length blocks" by simp
  have fields: "index (?records ! i) = int i + 1
        \<and> answerCount (?records ! i) = int (length blocks)
        \<and> answers (?records ! i) = py_strip (block_text (blocks ! i))"
    if "i < length blocks" for i
    using that by (simp add: answer_record_def nth_enumerate_eq)
  from ne have "?records \<noteq> []" by (simp add: enumerate_Nil_iff)
  with run len fields show ?thesis by blast
qed

lemma one_answer_page_blocks:
  "extract_answer_blocks (\<lambda>h. True) one_answer_page
     = Inr [\<lparr> block_text = ''Paris is the capital.'', block_upvotes = None, block_views = None,
               block_profile_url = None, block_author_name = None \<rparr>]"
  by code_simp

theorem parse_question_page_blocks_witness:
  "\<exists>records.
     parse_question_page (\<lambda>h. True) ''2024-01-01T00:00:00Z'' one_answer_page ''https://www.quora.com/What-is-AI''
       = Inr records
     \<and> length records = 1
     \<and> index (records ! 0) = 1
     \<and> answerCount (records ! 0) = 1
     \<and> answers (records ! 0) = ''Paris is the capital.''"
proof -
  have "py_strip ''Paris is the capital.'' = ''Paris is the capital.''" by code_simp
  then show ?thesis
    using parse_question_page_blocks [OF one_answer_page_blocks, of "''2024-01-01T00:00:00Z''"
        "''https://www.quora.com/What-is-AI''"]
    by auto
qed

text \<open>
  C2.  If the answer-block locator returns no block, \<open>_parse_question_page\<close> returns one
  record: \<open>index\<close> 1, \<open>answerCount\<close> 0, \<open>answers\<close> the first 5000 characters of the
  visible text of the page, no upvotes, views or profile URL, and one name entry with empty
  given and family name.
\<close>

theorem parse_question_page_no_blocks:
  assumes "extract_answer_blocks host_ok soup = Inr []"
  shows "parse_question_page host_ok now soup page_url
           = Inr [\<lparr> index = 1,
                     qid = extract_qid soup page_url,
                     record_id = build_encoded_id (extract_qid soup page_url) 1,
                     url = page_url,
                     title = extract_title soup,
                     creationTime = now,
                     answerCount = 0,
                     answers = take 5000 (get_text '' '' True soup),
                     numUpvotes = None,
                     numViews = None,
                     profileUrl = None,
                     names = [\<lparr> givenName = [], familyName = [] \<rparr>] \<rparr>]
         \<and> length (take 5000 (get_text '' '' True soup)) \<le> 5000"
  using parse_question_page_records [OF assms] by simp

lemma plain_page_blocks: "extract_answer_blocks (\<lambda>h. True) plain_page = Inr []"
  by code_simp

lemma plain_page_text: "get_text '' '' True plain_page = ''Nothing to see here''"
  by code_simp

theorem parse_question_page_no_blocks_witness:
  "\<exists>r. parse_question_page (\<lambda>h. True) ''2024-01-01T00:00:00Z'' plain_page ''https://www.quora.com/What-is-AI''
         = Inr [r]
       \<and> index r = 1 \<and> answerCount r = 0 \<and> answers r = ''Nothing to see here''
       \<and> numUpvotes r = None \<and> numViews r = None \<and> profileUrl r = None
       \<and> names r = [\<lparr> givenName = [], familyName = [] \<rparr>]"
  using parse_question_page_no_blocks [OF plain_page_blocks, of "''2024-01-01T00:00:00Z''"
      "''https://www.quora.com/What-is-AI''"] plain_page_text
  by simp

subsection \<open>The search page\<close>

lemma five_links_targets:
  "link_targets five_links_page
     = [''/profile/alice'', ''/What-is-AI'', ''/answer/123'', ''https://other.com/x'',
        ''/question/456-foo'']"
  by code_simp

lemma collect_example:
  "collect_question_urls host_ok []
     [''/profile/alice'', ''/What-is-AI'', ''/answer/123'', ''https://other.com/x'',
      ''/question/456-foo'']
   = Inr [''https://www.quora.com/What-is-AI'', ''https://www.quora.com/question/456-foo'']"
  by code_simp

text \<open>
  C6.  For a results page whose links are, in document order, \<open>/profile/alice\<close>,
  \<open>/What-is-AI\<close>, \<open>/answer/123\<close>, \<open>https://other.com/x\<close> and \<open>/question/456-foo\<close>,
  the collector returns the normalized forms of \<open>/What-is-AI\<close> and \<open>/question/456-foo\<close>,
  in that order, and nothing else.
\<close>

theorem search_page_example:
  assumes "link_targets soup
             = [''/profile/alice'', ''/What-is-AI'', ''/answer/123'', ''https://other.com/x'',
                ''/question/456-foo'']"
  shows "parse_search_results_page host_ok soup
           = Inr [''https://www.quora.com/What-is-AI'', ''https://www.quora.com/question/456-foo'']"
  unfolding parse_search_results_page_def assms by (rule collect_example)

theorem search_page_example_witness:
  "link_targets five_links_page
     = [''/profile/alice'', ''/What-is-AI'', ''/answer/123'', ''https://other.com/x'',
        ''/question/456-foo'']
   \<and> parse_search_results_page (\<lambda>h. True) five_links_page
       = Inr [''https://www.quora.com/What-is-AI'', ''https://www.quora.com/question/456-foo'']"
  using five_links_targets search_page_example [OF five_links_targets, of "\<lambda>h. True"]
  by (rule conjI)









subsection \<open>The question identifier\<close>

lemma digits_value_snoc: "digits_value b (s @ [c]) = b * digits_value b s + digit_value c"
  by (simp add: digits_value_def)

lemma hex_char_lower_hex: "is_lower_hex (hex_char n)"
proof -
  have "n mod 16 < length ''0123456789abcdef''" by simp
  then have "''0123456789abcdef'' ! (n mod 16) \<in> set ''0123456789abcdef''"
    by (rule nth_mem)
  then show ?thesis by (simp only: is_lower_hex_def hex_char_def)
qed

lemma hex32_shape: "length (hex32 w) = 8 \<and> list_all is_lower_hex (hex32 w)"
  by (simp add: hex32_def hex_char_lower_hex)

lemma hexdigest_shape: "length (hexdigest hs) = 64 \<and> list_all is_lower_hex (hexdigest hs)"
  by (simp add: hexdigest_def hex32_shape split: prod.splits)

lemma digest_prefix_shape:
  "length (take 12 (sha256_hexdigest u)) = 12 \<and> list_all is_lower_hex (take 12 (sha256_hexdigest u))"
proof -
  have "list_all is_lower_hex (take 12 (sha256_hexdigest u))"
    using hexdigest_shape [of "sha256 (utf8_encode u)"]
    by (auto simp: sha256_hexdigest_def list_all_iff dest: in_set_takeD)
  then show ?thesis
    using hexdigest_shape [of "sha256 (utf8_encode u)"] by (simp add: sha256_hexdigest_def)
qed

lemma lower_hex_facts:
  assumes "is_lower_hex c"
  shows "c \<noteq> CHR 0x85" "c \<noteq> CHR 0xA0" "\<not> c_isspace c" "c \<noteq> CHR ''-''" "c \<noteq> CHR ''+''"
    "c \<noteq> CHR ''_''" "c \<noteq> CHR ''x''" "c \<noteq> CHR ''X''" "digit_value c < 16" "0 \<le> digit_value c"
  using assms by (auto simp: is_lower_hex_def c_isspace_def digit_value_def)

lemma contains_hd: "contains (a # p) s \<Longrightarrow> a \<in> set s"
  by (induction s) (auto simp: startswith_def)

lemma py_int_lower_hex:
  assumes ne: "s \<noteq> []" and hex: "list_all is_lower_hex s"
  shows "py_int 16 s = Some (digits_value 16 s)"
proof -
  from hex have all: "\<And>c. c \<in> set s \<Longrightarrow> is_lower_hex c" by (simp add: list_all_iff)
  obtain c cs where s: "s = c # cs" using ne by (cases s) auto
  have c: "is_lower_hex c" using all s by simp
  have a: "to_ascii_space s = s"
    unfolding to_ascii_space_def using all lower_hex_facts(1,2) by (intro map_idI) auto
  have b: "dropWhile c_isspace s = s"
    using s lower_hex_facts(3) [OF c] by simp
  have sg: "split_sign s = (False, s)"
    using s lower_hex_facts(4,5) [OF c] by (simp add: split_sign_def)
  have px: "take 2 s \<noteq> ''0x''" "take 2 s \<noteq> ''0X''"
  proof -
    show "take 2 s \<noteq> ''0x''"
    proof (cases cs)
      case Nil
      with s show ?thesis by simp
    next
      case (Cons d ds)
      with all s have "is_lower_hex d" by simp
      from lower_hex_facts(7) [OF this] s Cons show ?thesis by simp
    qed
    show "take 2 s \<noteq> ''0X''"
    proof (cases cs)
      case Nil
      with s show ?thesis by simp
    next
      case (Cons d ds)
      with all s have "is_lower_hex d" by simp
      from lower_hex_facts(8) [OF this] s Cons show ?thesis by simp
    qed
  qed
  have tw: "takeWhile (\<lambda>c. digit_value c < 16 \<or> c = CHR ''_'') s = s"
    using all lower_hex_facts(9) by (simp add: takeWhile_eq_all_conv)
  have dw: "dropWhile (\<lambda>c. digit_value c < 16 \<or> c = CHR ''_'') s = []"
    using all lower_hex_facts(9) by simp
  have fl: "filter (\<lambda>c. c \<noteq> CHR ''_'') s = s"
    using all lower_hex_facts(6) by (simp add: filter_id_conv)
  have t1: "take (Suc 0) s \<noteq> ''_''"
    using s lower_hex_facts(6) [OF c] by simp
  have uu: "\<not> contains ''__'' s"
    using contains_hd [of "CHR ''_''" "''_''" s] all lower_hex_facts(6) by blast
  have ls: "last s \<noteq> CHR ''_''"
    using all [of "last s"] lower_hex_facts(6) ne by auto
  show ?thesis
    unfolding py_int_def
    by (simp add: a b sg px tw dw fl t1 uu ls ne Let_def)
qed

lemma py_int_digest_prefix:
  "py_int 16 (take 12 (sha256_hexdigest u)) = Some (digits_value 16 (take 12 (sha256_hexdigest u)))"
proof -
  have "take 12 (sha256_hexdigest u) \<noteq> []"
    using digest_prefix_shape [of u] by auto
  then show ?thesis
    using digest_prefix_shape [of u] by (intro py_int_lower_hex) simp_all
qed

text \<open>
  C4.  On a page without a question-identifier signal, \<open>_extract_qid\<close> returns the number
  that the first 12 characters of the SHA-256 hexadecimal digest of the URL's UTF-8
  encoding denote in base 16; so two pages without a signal give the same identifier for
  the same URL.
\<close>

theorem extract_qid_fallback:
  assumes "no_qid_signal soup"
  shows "extract_qid soup u = Some (digits_value 16 (take 12 (sha256_hexdigest u)))
       \<and> (no_qid_signal soup' \<longrightarrow> extract_qid soup' u = extract_qid soup u)"
proof -
  have "extract_qid s u = Some (digits_value 16 (take 12 (sha256_hexdigest u)))"
    if "no_qid_signal s" for s
    using that by (simp add: extract_qid_def no_qid_signal_def py_int_digest_prefix)
  with assms show ?thesis by simp
qed

lemma plain_page_no_qid_signal: "no_qid_signal plain_page"
  by code_simp

theorem extract_qid_fallback_witness:
  "no_qid_signal plain_page
   \<and> extract_qid plain_page ''https://www.quora.com/What-is-AI''
       = Some (digits_value 16 (take 12 (sha256_hexdigest ''https://www.quora.com/What-is-AI'')))"
proof -
  have "extract_qid plain_page ''https://www.quora.com/What-is-AI''
       = Some (digits_value 16 (take 12 (sha256_hexdigest ''https://www.quora.com/What-is-AI'')))"
    using extract_qid_fallback [OF plain_page_no_qid_signal] by (rule conjunct1)
  with plain_page_no_qid_signal show ?thesis by (rule conjI)
qed

text \<open>
  C9.  \<open>_extract_qid\<close> always returns an integer: the last strategy cannot fail, because
  the first 12 characters of a SHA-256 hexadecimal digest always read as a number in base
  16, so the \<open>except\<close> branch that returns \<open>None\<close> is never taken.
\<close>

theorem extract_qid_present:
  "(\<exists>q. extract_qid soup u = Some q)
   \<and> (\<exists>v. py_int 16 (take 12 (sha256_hexdigest u)) = Some v)"
  by (simp add: extract_qid_def py_int_digest_prefix Let_def split: option.splits)

theorem extract_qid_present_witness:
  "\<exists>q. extract_qid plain_page ''https://www.quora.com/What-is-AI'' = Some q"
  using extract_qid_present [of plain_page "''https://www.quora.com/What-is-AI''"]
  by (rule conjunct1)

end
